theory Spec2Isabelle
  imports Main "HOL-Library.Word"
begin

section \<open>Data model of backend/server.py\<close>

text \<open>
  Time points (\<^verbatim>\<open>datetime\<close>) and durations (\<^verbatim>\<open>timedelta\<close>) are integers counting
  seconds. The optional coordinates are Python floats; the program only copies them, so
  they are carried as their 64-bit patterns. Values that the program draws from outside
  (\<^verbatim>\<open>uuid.uuid4()\<close>, \<^verbatim>\<open>datetime.utcnow()\<close>, the salt of the password hasher) are explicit
  arguments of the operation that draws them.
\<close>

type_synonym datetime = int
type_synonym timedelta = int
type_synonym float = "64 word"

definition minutes :: "int \<Rightarrow> timedelta" where
  "minutes m = 60 * m"

definition SECRET_KEY :: string where
  "SECRET_KEY = ''your-secret-key-change-in-production''"

definition ALGORITHM :: string where
  "ALGORITHM = ''HS256''"

definition ACCESS_TOKEN_EXPIRE_MINUTES :: int where
  "ACCESS_TOKEN_EXPIRE_MINUTES = 30"

text \<open>
  Modelled from the spec: the password hasher (\<^verbatim>\<open>passlib.CryptContext\<close>) is a library outside
  the sources. Section 4.1: a hash is salted and one-way, \<^verbatim>\<open>verify\<close> re-derives it from the
  embedded salt and compares, and a malformed blob verifies as false. The blob is symbolic:
  it records the salt and the plaintext it was made from.
\<close>

datatype hash_blob = Bcrypt string string | MalformedHash string

text \<open>
  Modelled from the spec: the token library (\<^verbatim>\<open>jose.jwt\<close>) is outside the sources. Section
  4.2: a token is a signed, tamper-evident claim set; verification fails if the signature
  does not verify, the payload is malformed, or the expiry has passed. The token is
  symbolic: a well-formed one records the key and algorithm that signed it and its claims,
  anything else is \<open>Malformed\<close>.
\<close>

datatype jvalue = JStr string | JTime datetime

type_synonym claims = "string \<rightharpoonup> jvalue"

datatype token = JWS string string claims | Malformed string

datatype jwt_error = JWTError

text \<open>Pydantic models. \<open>id\<close> is a constant of HOL, so the two \<^verbatim>\<open>id\<close> fields carry a
  suffix; the request models \<^verbatim>\<open>UserCreate\<close>, \<^verbatim>\<open>UserLogin\<close> and \<^verbatim>\<open>VideoUpload\<close> share field
  names with the stored models and carry the prefixes \<open>uc_\<close>, \<open>ul_\<close> and \<open>vu_\<close>.\<close>

record UserCreate =
  uc_email :: string
  uc_password :: string
  uc_phone :: "string option"

record UserLogin =
  ul_email :: string
  ul_password :: string

record Token =
  access_token :: token
  token_type :: string

record User =
  id_user :: string
  email :: string
  phone :: "string option"
  hashed_password :: hash_blob
  created_at :: datetime

record VideoRecord =
  id_video :: string
  user_id :: string
  video_data :: string
  location_lat :: "float option"
  location_lng :: "float option"
  phone_number :: "string option"
  timestamp :: datetime

record VideoUpload =
  vu_video_data :: string
  vu_location_lat :: "float option"
  vu_location_lng :: "float option"
  vu_phone_number :: "string option"

text \<open>The database: two collections, each a sequence of documents in insertion order.\<close>

record db =
  users :: "User list"
  videos :: "VideoRecord list"

text \<open>\<^verbatim>\<open>HTTPException(status_code, detail, headers)\<close>; \<^verbatim>\<open>headers\<close> defaults to \<^verbatim>\<open>None\<close>.\<close>

record HTTPException =
  status_code :: nat
  detail :: string
  headers :: "(string \<times> string) list option"

text \<open>JSON values of the hand-built response dictionaries.\<close>

datatype json = JString string | JDatetime datetime | JFloat float | JNull

type_synonym json_object = "(string \<times> json) list"

record UploadResponse =
  message :: string
  video_id :: string

text \<open>A handler either raises an \<open>HTTPException\<close> (\<open>Inl\<close>) or returns a body (\<open>Inr\<close>), which
  the framework sends with status 200.\<close>

definition response_status :: "HTTPException + 'a \<Rightarrow> nat" where
  "response_status r = (case r of Inl e \<Rightarrow> status_code e | Inr _ \<Rightarrow> 200)"

section \<open>Store primitives\<close>

text \<open>\<^verbatim>\<open>collection.find_one(query)\<close> is \<open>find\<close> of the list library with the query as a
  predicate, \<^verbatim>\<open>collection.find(query)\<close> is \<open>filter\<close>, \<^verbatim>\<open>insert_one\<close> appends.
  \<^verbatim>\<open>delete_one\<close> removes the first matching document and reports how many it removed.\<close>

definition insert_one :: "'a \<Rightarrow> 'a list \<Rightarrow> 'a list" where
  "insert_one doc coll = coll @ [doc]"

fun delete_one :: "('a \<Rightarrow> bool) \<Rightarrow> 'a list \<Rightarrow> 'a list \<times> nat" where
  "delete_one q [] = ([], 0)"
| "delete_one q (d # ds) =
     (if q d then (ds, 1)
      else (case delete_one q ds of (ds', n) \<Rightarrow> (d # ds', n)))"

definition to_list :: "nat \<Rightarrow> 'a list \<Rightarrow> 'a list" where
  "to_list n cursor = take n cursor"

section \<open>Auth utility functions\<close>

text \<open>
  Modelled from the spec: \<^verbatim>\<open>pwd_context.verify\<close> and \<^verbatim>\<open>pwd_context.hash\<close> belong to the password
  hasher, which is outside the sources. Section 4.1: \<^verbatim>\<open>hash\<close> salts with a value drawn per call
  (the argument \<open>salt\<close>), \<^verbatim>\<open>verify\<close> compares against the plaintext the blob was made from,
  and a malformed blob verifies as false.
\<close>

definition verify_password :: "string \<Rightarrow> hash_blob \<Rightarrow> bool" where
  "verify_password plain_password hashed =
     (case hashed of Bcrypt salt plain \<Rightarrow> plain = plain_password | MalformedHash _ \<Rightarrow> False)"

definition get_password_hash :: "string \<Rightarrow> string \<Rightarrow> hash_blob" where
  "get_password_hash salt password = Bcrypt salt password"

text \<open>
  Modelled from the spec: \<^verbatim>\<open>jwt.encode\<close> and \<^verbatim>\<open>jwt.decode\<close> belong to the token library, which
  is outside the sources. Section 4.2: \<^verbatim>\<open>decode\<close> fails (raises \<^verbatim>\<open>JWTError\<close>) if the signature
  does not verify (another key or algorithm signed the token), if the token or its payload
  is malformed, or if the expiry has passed (\<open>expire \<le> now\<close>); otherwise it returns the
  claims. Every token that this program issues carries an expiry; a payload without one is
  taken not to expire.
\<close>

definition jwt_encode :: "claims \<Rightarrow> string \<Rightarrow> string \<Rightarrow> token" where
  "jwt_encode to_encode key algorithm = JWS key algorithm to_encode"

definition jwt_decode :: "token \<Rightarrow> string \<Rightarrow> string list \<Rightarrow> datetime \<Rightarrow> jwt_error + claims" where
  "jwt_decode tok key algorithms now =
     (case tok of
        Malformed _ \<Rightarrow> Inl JWTError
      | JWS k a payload \<Rightarrow>
          if k \<noteq> key \<or> a \<notin> set algorithms then Inl JWTError
          else (case payload ''exp'' of
                  None \<Rightarrow> Inr payload
                | Some (JStr _) \<Rightarrow> Inl JWTError
                | Some (JTime expire) \<Rightarrow> if expire \<le> now then Inl JWTError else Inr payload))"

text \<open>\<^verbatim>\<open>if expires_delta:\<close> tests truthiness: \<^verbatim>\<open>None\<close> and the zero duration both take the
  15-minute branch.\<close>

definition create_access_token :: "claims \<Rightarrow> timedelta option \<Rightarrow> datetime \<Rightarrow> token" where
  "create_access_token data expires_delta utcnow =
     (let expire = (case expires_delta of
                      None \<Rightarrow> utcnow + minutes 15
                    | Some d \<Rightarrow> if d \<noteq> 0 then utcnow + d else utcnow + minutes 15);
          to_encode = data(''exp'' \<mapsto> JTime expire)
      in jwt_encode to_encode SECRET_KEY ALGORITHM)"

definition credentials_exception :: HTTPException where
  "credentials_exception =
     \<lparr>status_code = 401, detail = ''Could not validate credentials'',
      headers = Some [(''WWW-Authenticate'', ''Bearer'')]\<rparr>"

text \<open>A query that the authentication gate sends to the credential store.\<close>

datatype db_query = Users_find_one jvalue

text \<open>
  \<open>get_current_user\<close> returns its outcome together with the store queries it issued, in
  order. The subject read from the payload is compared with the stored emails as a JSON
  value, so a subject that is not a string matches no user.
\<close>

definition get_current_user :: "db \<Rightarrow> token \<Rightarrow> datetime \<Rightarrow> (HTTPException + User) \<times> db_query list" where
  "get_current_user d credentials utcnow =
     (case jwt_decode credentials SECRET_KEY [ALGORITHM] utcnow of
        Inl JWTError \<Rightarrow> (Inl credentials_exception, [])
      | Inr payload \<Rightarrow>
          (case payload ''sub'' of
             None \<Rightarrow> (Inl credentials_exception, [])
           | Some sub \<Rightarrow>
               (case find (\<lambda>u. JStr (email u) = sub) (users d) of
                  None \<Rightarrow> (Inl credentials_exception, [Users_find_one sub])
                | Some user \<Rightarrow> (Inr user, [Users_find_one sub]))))"

text \<open>
  Modelled from the spec: the extraction of the bearer token from the request
  (\<^verbatim>\<open>HTTPBearer\<close>, the dependency \<open>security\<close>) is framework code outside the sources. Section
  4.3 (1) and section 7: a request without a usable bearer token is rejected as
  \<open>Unauthenticated\<close>, reported uniformly with the other rejections of the gate. The argument
  is the token of the \<^verbatim>\<open>Authorization\<close> header, \<open>None\<close> when there is none.
\<close>

definition security :: "token option \<Rightarrow> HTTPException + token" where
  "security authorization =
     (case authorization of None \<Rightarrow> Inl credentials_exception | Some tok \<Rightarrow> Inr tok)"

text \<open>\<^verbatim>\<open>Depends(get_current_user)\<close> with \<^verbatim>\<open>Depends(security)\<close> inside: the gate of every
  protected route.\<close>

definition authentication_gate :: "db \<Rightarrow> token option \<Rightarrow> datetime \<Rightarrow> (HTTPException + User) \<times> db_query list" where
  "authentication_gate d authorization utcnow =
     (case security authorization of
        Inl e \<Rightarrow> (Inl e, [])
      | Inr credentials \<Rightarrow> get_current_user d credentials utcnow)"

section \<open>Authentication routes\<close>

text \<open>\<open>register\<close> draws a fresh id, a salt and two clock readings (the record's
  \<^verbatim>\<open>created_at\<close> and the issue time of the token).\<close>

definition register :: "db \<Rightarrow> UserCreate \<Rightarrow> string \<Rightarrow> string \<Rightarrow> datetime \<Rightarrow> datetime \<Rightarrow> (HTTPException + Token) \<times> db" where
  "register d user uuid4 salt created utcnow =
     (case find (\<lambda>u. email u = uc_email user) (users d) of
        Some existing_user \<Rightarrow>
          (Inl \<lparr>status_code = 400, detail = ''Email already registered'', headers = None\<rparr>, d)
      | None \<Rightarrow>
          (let hashed = get_password_hash salt (uc_password user);
               user_obj = \<lparr>id_user = uuid4, email = uc_email user, phone = uc_phone user,
                           hashed_password = hashed, created_at = created\<rparr>;
               d' = d\<lparr>users := insert_one user_obj (users d)\<rparr>;
               access_token_expires = minutes ACCESS_TOKEN_EXPIRE_MINUTES;
               tok = create_access_token [''sub'' \<mapsto> JStr (uc_email user)]
                       (Some access_token_expires) utcnow
           in (Inr \<lparr>access_token = tok, token_type = ''bearer''\<rparr>, d')))"

definition login :: "db \<Rightarrow> UserLogin \<Rightarrow> datetime \<Rightarrow> HTTPException + Token" where
  "login d user utcnow =
     (let db_user = find (\<lambda>u. email u = ul_email user) (users d)
      in if (case db_user of
               None \<Rightarrow> True
             | Some u \<Rightarrow> \<not> verify_password (ul_password user) (hashed_password u))
         then Inl \<lparr>status_code = 401, detail = ''Incorrect email or password'',
                   headers = Some [(''WWW-Authenticate'', ''Bearer'')]\<rparr>
         else (let access_token_expires = minutes ACCESS_TOKEN_EXPIRE_MINUTES;
                   tok = create_access_token [''sub'' \<mapsto> JStr (ul_email user)]
                           (Some access_token_expires) utcnow
               in Inr \<lparr>access_token = tok, token_type = ''bearer''\<rparr>))"

section \<open>Video routes\<close>

text \<open>The handlers take \<open>current_user\<close>, the user record that the gate resolved.\<close>

definition upload_video :: "db \<Rightarrow> VideoUpload \<Rightarrow> User \<Rightarrow> string \<Rightarrow> datetime \<Rightarrow> (HTTPException + UploadResponse) \<times> db" where
  "upload_video d video current_user uuid4 utcnow =
     (let video_record = \<lparr>id_video = uuid4, user_id = id_user current_user,
                           video_data = vu_video_data video,
                           location_lat = vu_location_lat video,
                           location_lng = vu_location_lng video,
                           phone_number = vu_phone_number video,
                           timestamp = utcnow\<rparr>;
          d' = d\<lparr>videos := insert_one video_record (videos d)\<rparr>
      in (Inr \<lparr>message = ''Video uploaded successfully'', video_id = id_video video_record\<rparr>, d'))"

definition opt_json :: "('a \<Rightarrow> json) \<Rightarrow> 'a option \<Rightarrow> json" where
  "opt_json f v = (case v of None \<Rightarrow> JNull | Some x \<Rightarrow> f x)"

definition video_summary :: "VideoRecord \<Rightarrow> json_object" where
  "video_summary video =
     [(''id'', JString (id_video video)),
      (''timestamp'', JDatetime (timestamp video)),
      (''location_lat'', opt_json JFloat (location_lat video)),
      (''location_lng'', opt_json JFloat (location_lng video)),
      (''phone_number'', opt_json JString (phone_number video))]"

definition get_user_videos :: "db \<Rightarrow> User \<Rightarrow> json_object list" where
  "get_user_videos d current_user =
     (let vs = to_list 1000 (filter (\<lambda>v. user_id v = id_user current_user) (videos d))
      in map video_summary vs)"

definition not_found :: HTTPException where
  "not_found = \<lparr>status_code = 404, detail = ''Video not found'', headers = None\<rparr>"

text \<open>The stored record has no \<^verbatim>\<open>_id\<close> field, so the \<^verbatim>\<open>del video["_id"]\<close> of the source has
  nothing to do here.\<close>

definition get_video :: "db \<Rightarrow> string \<Rightarrow> User \<Rightarrow> HTTPException + VideoRecord" where
  "get_video d vid current_user =
     (case find (\<lambda>v. id_video v = vid \<and> user_id v = id_user current_user) (videos d) of
        None \<Rightarrow> Inl not_found
      | Some video \<Rightarrow> Inr video)"

definition delete_video :: "db \<Rightarrow> string \<Rightarrow> User \<Rightarrow> (HTTPException + string) \<times> db" where
  "delete_video d vid current_user =
     (case delete_one (\<lambda>v. id_video v = vid \<and> user_id v = id_user current_user) (videos d) of
        (vs', deleted_count) \<Rightarrow>
          (let d' = d\<lparr>videos := vs'\<rparr>
           in if deleted_count = 0 then (Inl not_found, d')
              else (Inr ''Video deleted successfully'', d')))"

section \<open>Example data\<close>

text \<open>Two registered users and one clip of each, used to instantiate the theorems below.\<close>

definition alice :: User where
  "alice = \<lparr>id_user = ''u-alice'', email = ''alice@example.com'', phone = None,
            hashed_password = Bcrypt ''s1'' ''wonderland'', created_at = 1000\<rparr>"

definition bob :: User where
  "bob = \<lparr>id_user = ''u-bob'', email = ''bob@example.com'', phone = Some ''+1-555-0123'',
          hashed_password = Bcrypt ''s2'' ''builder'', created_at = 2000\<rparr>"

definition clip_a :: VideoRecord where
  "clip_a = \<lparr>id_video = ''v-1'', user_id = ''u-alice'', video_data = ''QUJD'',
             location_lat = None, location_lng = None, phone_number = None,
             timestamp = 3000\<rparr>"

definition clip_b :: VideoRecord where
  "clip_b = \<lparr>id_video = ''v-2'', user_id = ''u-bob'', video_data = ''not base64!'',
             location_lat = Some 7, location_lng = Some 9, phone_number = Some ''+1-555-0123'',
             timestamp = 4000\<rparr>"

definition example_db :: db where
  "example_db = \<lparr>users = [alice, bob], videos = [clip_a, clip_b]\<rparr>"

definition clip_n :: "nat \<Rightarrow> VideoRecord" where
  "clip_n i = \<lparr>id_video = replicate i (CHR ''v''), user_id = ''u-alice'', video_data = ''QUJD'',
               location_lat = None, location_lng = None, phone_number = None,
               timestamp = int i\<rparr>"

definition big_db :: db where
  "big_db = \<lparr>users = [alice], videos = map clip_n [0..<1001]\<rparr>"

definition alice_token :: token where
  "alice_token = JWS SECRET_KEY ALGORITHM
     [''sub'' \<mapsto> JStr ''alice@example.com'', ''exp'' \<mapsto> JTime 1900]"

definition carol_token :: token where
  "carol_token = JWS SECRET_KEY ALGORITHM
     [''sub'' \<mapsto> JStr ''carol@example.com'', ''exp'' \<mapsto> JTime 1900]"

definition carol :: User where
  "carol = \<lparr>id_user = ''u-carol'', email = ''carol@example.com'', phone = None,
            hashed_password = Bcrypt ''s3'' ''pw'', created_at = 99\<rparr>"

definition nosub_token :: token where
  "nosub_token = JWS SECRET_KEY ALGORITHM [''exp'' \<mapsto> JTime 1900]"

section \<open>Facts about the store primitives and the handlers\<close>

lemma delete_one_no_match:
  "find q ds = None \<Longrightarrow> delete_one q ds = (ds, 0)"
  by (induction ds) (auto split: if_splits)

lemma find_Some_holds:
  "find q ds = Some v \<Longrightarrow> q v \<and> v \<in> set ds"
  by (induction ds) (auto split: if_splits)

lemma delete_one_first_match:
  "find q ds = Some v \<Longrightarrow> delete_one q ds = (remove1 v ds, 1)"
  by (induction ds) (auto split: if_splits prod.splits dest: find_Some_holds)

lemma find_unique_id:
  "distinct (map f xs) \<Longrightarrow> v \<in> set xs \<Longrightarrow> find (\<lambda>x. f x = f v \<and> P x) xs = (if P v then Some v else None)"
  by (induction xs) (auto simp: image_iff find_None_iff)

lemma find_absent_id:
  "k \<notin> f ` set xs \<Longrightarrow> find (\<lambda>x. f x = k \<and> P x) xs = None"
  by (induction xs) auto

lemma get_video_owned:
  "get_video d x c = Inr r \<Longrightarrow> user_id r = id_user c \<and> id_video r = x \<and> r \<in> set (videos d)"
  by (auto simp: get_video_def find_Some_iff in_set_conv_nth split: option.splits)

lemma delete_video_changes:
  "snd (delete_video d x c) \<noteq> d \<Longrightarrow>
     \<exists>r. r \<in> set (videos d) \<and> id_video r = x \<and> user_id r = id_user c
         \<and> delete_video d x c = (Inr ''Video deleted successfully'', d\<lparr>videos := remove1 r (videos d)\<rparr>)"
proof (cases "find (\<lambda>v. id_video v = x \<and> user_id v = id_user c) (videos d)")
  case None
  assume "snd (delete_video d x c) \<noteq> d"
  with None show ?thesis
    by (simp add: delete_video_def delete_one_no_match)
next
  case (Some r)
  then have "r \<in> set (videos d) \<and> id_video r = x \<and> user_id r = id_user c"
    by (auto simp: find_Some_iff in_set_conv_nth)
  with Some show ?thesis
    by (auto simp: delete_video_def delete_one_first_match)
qed

lemma find_append_new:
  "find q xs = None \<Longrightarrow> q x \<Longrightarrow> find q (xs @ [x]) = Some x"
  by (induction xs) (auto split: if_splits)

lemma summary_id:
  "(''id'', j) \<in> set (video_summary v) \<Longrightarrow> j = JString (id_video v)"
  by (auto simp: video_summary_def)

lemma summaries_from_store:
  assumes "s \<in> set (get_user_videos d c)"
  shows "\<exists>w. w \<in> set (videos d) \<and> user_id w = id_user c \<and> s = video_summary w"
proof -
  from assms obtain w
    where w: "w \<in> set (take 1000 (filter (\<lambda>v. user_id v = id_user c) (videos d)))"
      and s: "s = video_summary w"
    by (auto simp: get_user_videos_def to_list_def)
  from w have "w \<in> set (filter (\<lambda>v. user_id v = id_user c) (videos d))"
    by (rule in_set_takeD)
  with s show ?thesis by auto
qed

lemma summary_keys:
  "map fst (video_summary v) =
     [''id'', ''timestamp'', ''location_lat'', ''location_lng'', ''phone_number'']"
  by (simp add: video_summary_def)

lemma summary_map_of_id:
  "map_of (video_summary v) ''id'' = Some (JString (id_video v))"
  by (simp add: video_summary_def)

lemma big_db_owned:
  "filter (\<lambda>v. user_id v = id_user alice) (videos big_db) = videos big_db"
  by (simp add: big_db_def clip_n_def alice_def)

lemma find_append_left:
  "find q xs = Some u \<Longrightarrow> find q (xs @ ys) = Some u"
  by (induction xs) (auto split: if_splits)

lemma issued_token:
  "create_access_token [''sub'' \<mapsto> JStr e] (Some (minutes ACCESS_TOKEN_EXPIRE_MINUTES)) now =
     JWS SECRET_KEY ALGORITHM [''sub'' \<mapsto> JStr e, ''exp'' \<mapsto> JTime (now + 1800)]"
  by (simp add: create_access_token_def jwt_encode_def minutes_def ACCESS_TOKEN_EXPIRE_MINUTES_def)

lemma gate_accepts_issued:
  "find (\<lambda>u. email u = e) (users d) = Some u \<Longrightarrow> t < ex \<Longrightarrow>
     authentication_gate d (Some (JWS SECRET_KEY ALGORITHM [''sub'' \<mapsto> JStr e, ''exp'' \<mapsto> JTime ex])) t
       = (Inr u, [Users_find_one (JStr e)])"
  by (simp add: authentication_gate_def security_def get_current_user_def jwt_decode_def)

lemma gate_rejects_expired:
  "ex \<le> t \<Longrightarrow>
     authentication_gate d (Some (JWS k a [''sub'' \<mapsto> JStr e, ''exp'' \<mapsto> JTime ex])) t
       = (Inl credentials_exception, [])"
  by (simp add: authentication_gate_def security_def get_current_user_def jwt_decode_def)

lemma login_success:
  "login d ul now = Inr tk \<Longrightarrow>
     \<exists>u. find (\<lambda>u. email u = ul_email ul) (users d) = Some u
        \<and> verify_password (ul_password ul) (hashed_password u)
        \<and> access_token tk = JWS SECRET_KEY ALGORITHM
             [''sub'' \<mapsto> JStr (email u), ''exp'' \<mapsto> JTime (now + 1800)]"
  by (auto simp: login_def issued_token Let_def split: option.splits if_splits
      dest: find_Some_holds)

lemma register_success:
  "register d uc uid salt created now = (Inr tk, d') \<Longrightarrow>
     \<exists>u. users d' = users d @ [u] \<and> email u = uc_email uc \<and> id_user u = uid
        \<and> find (\<lambda>u. email u = uc_email uc) (users d') = Some u
        \<and> access_token tk = JWS SECRET_KEY ALGORITHM
             [''sub'' \<mapsto> JStr (email u), ''exp'' \<mapsto> JTime (now + 1800)]"
  by (auto simp: register_def issued_token insert_one_def Let_def find_append_new
      split: option.splits)

text \<open>Uniqueness of the record ids is an invariant of the video store: an upload under a
  fresh id and any deletion keep it.\<close>

lemma delete_one_subset:
  "set (fst (delete_one q ds)) \<subseteq> set ds"
  by (induction ds) (auto split: prod.splits)

lemma delete_one_unique_ids:
  "distinct (map f ds) \<Longrightarrow> distinct (map f (fst (delete_one q ds)))"
proof (induction ds)
  case Nil
  then show ?case by simp
next
  case (Cons d ds)
  show ?case
  proof (cases "q d")
    case True
    with Cons.prems show ?thesis by simp
  next
    case False
    from Cons have "distinct (map f (fst (delete_one q ds)))" by simp
    moreover from Cons.prems delete_one_subset [of q ds]
    have "f d \<notin> f ` set (fst (delete_one q ds))" by auto
    ultimately show ?thesis
      using False by (auto split: prod.splits)
  qed
qed

lemma delete_video_unique_ids:
  "distinct (map id_video (videos d)) \<Longrightarrow>
     distinct (map id_video (videos (snd (delete_video d x c))))"
  using delete_one_unique_ids [of id_video "videos d"
      "\<lambda>v. id_video v = x \<and> user_id v = id_user c"]
  by (auto simp: delete_video_def Let_def split: prod.splits)

lemma upload_video_unique_ids:
  "distinct (map id_video (videos d)) \<Longrightarrow> vid \<notin> id_video ` set (videos d) \<Longrightarrow>
     distinct (map id_video (videos (snd (upload_video d video u vid now))))"
  by (simp add: upload_video_def insert_one_def Let_def)

section \<open>Upload\<close>

text \<open>
  C10. The upload performs no validation of the payload: for every string \<open>s\<close>, every
  database, user, id and clock reading, the upload answers 200 and appends one record whose
  \<open>video_data\<close> is \<open>s\<close>, leaving every earlier record in place.
\<close>

theorem upload_video_no_validation:
  "response_status (fst (upload_video d (video\<lparr>vu_video_data := s\<rparr>) u vid now)) = 200
   \<and> (\<exists>r. videos (snd (upload_video d (video\<lparr>vu_video_data := s\<rparr>) u vid now)) = videos d @ [r]
          \<and> video_data r = s \<and> id_video r = vid \<and> user_id r = id_user u)
   \<and> users (snd (upload_video d (video\<lparr>vu_video_data := s\<rparr>) u vid now)) = users d"
  by (simp add: upload_video_def response_status_def insert_one_def Let_def)

section \<open>Ownership of video records\<close>

text \<open>
  C1. In a store whose record ids are unique, for every record \<open>v\<close> and every user \<open>b\<close> whose
  id is not the record's \<open>user_id\<close>, get-video and delete-video by \<open>b\<close> on the id of \<open>v\<close> answer
  404 \<open>not_found\<close> and leave the database as it is, exactly as they do for an id that no
  record has. A record is returned only to, and a record is removed only for, the caller
  whose id is its \<open>user_id\<close>.
\<close>

theorem video_owner_scoping:
  "distinct (map id_video (videos d)) \<Longrightarrow> v \<in> set (videos d) \<Longrightarrow> user_id v \<noteq> id_user b \<Longrightarrow>
     get_video d (id_video v) b = Inl not_found
   \<and> delete_video d (id_video v) b = (Inl not_found, d)
   \<and> response_status (fst (delete_video d (id_video v) b)) = 404
   \<and> response_status (get_video d (id_video v) b) = 404
   \<and> (\<forall>x. x \<notin> id_video ` set (videos d) \<longrightarrow>
          get_video d x b = get_video d (id_video v) b
        \<and> delete_video d x b = delete_video d (id_video v) b)
   \<and> (\<forall>c x r. get_video d x c = Inr r \<longrightarrow>
          user_id r = id_user c \<and> id_video r = x \<and> r \<in> set (videos d))
   \<and> (\<forall>c x. snd (delete_video d x c) \<noteq> d \<longrightarrow>
          (\<exists>r. r \<in> set (videos d) \<and> id_video r = x \<and> user_id r = id_user c
              \<and> videos (snd (delete_video d x c)) = remove1 r (videos d)))"
proof -
  assume dist: "distinct (map id_video (videos d))" and v: "v \<in> set (videos d)"
    and other: "user_id v \<noteq> id_user b"
  let ?q = "\<lambda>x. id_video x = id_video v \<and> user_id x = id_user b"
  have none: "find ?q (videos d) = None"
    using find_unique_id [OF dist v, of "\<lambda>x. user_id x = id_user b"] other by simp
  have g: "get_video d (id_video v) b = Inl not_found"
    using none by (simp add: get_video_def)
  have del: "delete_video d (id_video v) b = (Inl not_found, d)"
    using none by (simp add: delete_video_def delete_one_no_match)
  have absent: "get_video d x b = Inl not_found \<and> delete_video d x b = (Inl not_found, d)"
    if "x \<notin> id_video ` set (videos d)" for x
    using find_absent_id [OF that, of "\<lambda>x. user_id x = id_user b"]
    by (simp add: get_video_def delete_video_def delete_one_no_match)
  have only: "\<exists>r. r \<in> set (videos d) \<and> id_video r = x \<and> user_id r = id_user c
              \<and> videos (snd (delete_video d x c)) = remove1 r (videos d)"
    if "snd (delete_video d x c) \<noteq> d" for c x
    using delete_video_changes [OF that] by auto
  show ?thesis
    using g del absent only get_video_owned
    by (simp add: response_status_def not_found_def)
qed

theorem video_owner_scoping_witness:
  "distinct (map id_video (videos example_db)) \<and> clip_a \<in> set (videos example_db)
   \<and> user_id clip_a \<noteq> id_user bob
   \<and> get_video example_db ''v-1'' bob = Inl not_found
   \<and> delete_video example_db ''v-1'' bob = (Inl not_found, example_db)
   \<and> get_video example_db ''v-1'' alice = Inr clip_a"
proof -
  have h1: "distinct (map id_video (videos example_db))"
    by (simp add: example_db_def clip_a_def clip_b_def)
  have h2: "clip_a \<in> set (videos example_db)"
    by (simp add: example_db_def)
  have h3: "user_id clip_a \<noteq> id_user bob"
    by (simp add: clip_a_def bob_def)
  have own: "get_video example_db ''v-1'' alice = Inr clip_a"
    by (simp add: get_video_def example_db_def clip_a_def alice_def)
  have "id_video clip_a = ''v-1''" by (simp add: clip_a_def)
  with video_owner_scoping [OF h1 h2 h3] h1 h2 h3 own show ?thesis
    by simp
qed

section \<open>Registration\<close>

text \<open>
  C3. If a user with the submitted email is already in the credential store, \<open>register\<close>
  fails with status 400 and detail "Email already registered" and leaves the database as
  it is. If there is none, it appends exactly one user record, carrying that email, and
  answers 200 with an access token and token type "bearer".
\<close>

theorem register_duplicate_email:
  "((\<exists>u\<in>set (users d). email u = uc_email uc) \<longrightarrow>
      register d uc uid salt created now =
        (Inl \<lparr>status_code = 400, detail = ''Email already registered'', headers = None\<rparr>, d)
      \<and> response_status (fst (register d uc uid salt created now)) = 400)
   \<and> (\<not> (\<exists>u\<in>set (users d). email u = uc_email uc) \<longrightarrow>
      (\<exists>tok u. register d uc uid salt created now =
                 (Inr \<lparr>access_token = tok, token_type = ''bearer''\<rparr>, d\<lparr>users := users d @ [u]\<rparr>)
             \<and> email u = uc_email uc \<and> id_user u = uid)
      \<and> response_status (fst (register d uc uid salt created now)) = 200)"
proof (cases "find (\<lambda>u. email u = uc_email uc) (users d)")
  case None
  then have "\<not> (\<exists>u\<in>set (users d). email u = uc_email uc)"
    by (auto simp: find_None_iff)
  with None show ?thesis
    by (auto simp: register_def insert_one_def response_status_def Let_def)
next
  case (Some a)
  then have "\<exists>u\<in>set (users d). email u = uc_email uc"
    using find_Some_holds [OF Some] by blast
  with Some show ?thesis
    by (simp add: register_def response_status_def)
qed

theorem register_duplicate_email_witness:
  "(\<exists>u\<in>set (users example_db). email u = ''alice@example.com'')
   \<and> register example_db \<lparr>uc_email = ''alice@example.com'', uc_password = ''pw'', uc_phone = None\<rparr>
        ''u-3'' ''s3'' 5000 5001 =
        (Inl \<lparr>status_code = 400, detail = ''Email already registered'', headers = None\<rparr>, example_db)
   \<and> \<not> (\<exists>u\<in>set (users example_db). email u = ''carol@example.com'')
   \<and> response_status (fst (register example_db
        \<lparr>uc_email = ''carol@example.com'', uc_password = ''pw'', uc_phone = None\<rparr>
        ''u-3'' ''s3'' 5000 5001)) = 200"
proof -
  have h1: "\<exists>u\<in>set (users example_db). email u = ''alice@example.com''"
    by (simp add: example_db_def alice_def)
  have h2: "\<not> (\<exists>u\<in>set (users example_db). email u = ''carol@example.com'')"
    by (simp add: example_db_def alice_def bob_def)
  from h1 h2
    register_duplicate_email [of example_db
      "\<lparr>uc_email = ''alice@example.com'', uc_password = ''pw'', uc_phone = None\<rparr>"
      "''u-3''" "''s3''" 5000 5001]
    register_duplicate_email [of example_db
      "\<lparr>uc_email = ''carol@example.com'', uc_password = ''pw'', uc_phone = None\<rparr>"
      "''u-3''" "''s3''" 5000 5001]
  show ?thesis by simp
qed

section \<open>Login\<close>

text \<open>
  C4. A login with a registered email and a wrong password and a login with an unregistered
  email (any password, any time) fail with the very same response: status 401, detail
  "Incorrect email or password" and the header WWW-Authenticate: Bearer.
\<close>

theorem login_failures_identical:
  "find (\<lambda>u. email u = e1) (users d) = Some u \<Longrightarrow> \<not> verify_password pw1 (hashed_password u) \<Longrightarrow>
   find (\<lambda>u. email u = e2) (users d) = None \<Longrightarrow>
     login d \<lparr>ul_email = e1, ul_password = pw1\<rparr> t1 =
       Inl \<lparr>status_code = 401, detail = ''Incorrect email or password'',
            headers = Some [(''WWW-Authenticate'', ''Bearer'')]\<rparr>
   \<and> login d \<lparr>ul_email = e2, ul_password = pw2\<rparr> t2 = login d \<lparr>ul_email = e1, ul_password = pw1\<rparr> t1
   \<and> response_status (login d \<lparr>ul_email = e2, ul_password = pw2\<rparr> t2) = 401"
  by (simp add: login_def response_status_def)

theorem login_failures_identical_witness:
  "find (\<lambda>u. email u = ''alice@example.com'') (users example_db) = Some alice
   \<and> \<not> verify_password ''guess'' (hashed_password alice)
   \<and> find (\<lambda>u. email u = ''carol@example.com'') (users example_db) = None
   \<and> login example_db \<lparr>ul_email = ''alice@example.com'', ul_password = ''guess''\<rparr> 10 =
       Inl \<lparr>status_code = 401, detail = ''Incorrect email or password'',
            headers = Some [(''WWW-Authenticate'', ''Bearer'')]\<rparr>
   \<and> login example_db \<lparr>ul_email = ''carol@example.com'', ul_password = ''wonderland''\<rparr> 20 =
       login example_db \<lparr>ul_email = ''alice@example.com'', ul_password = ''guess''\<rparr> 10"
proof -
  have h1: "find (\<lambda>u. email u = ''alice@example.com'') (users example_db) = Some alice"
    by (simp add: example_db_def alice_def)
  have h2: "\<not> verify_password ''guess'' (hashed_password alice)"
    by (simp add: verify_password_def alice_def)
  have h3: "find (\<lambda>u. email u = ''carol@example.com'') (users example_db) = None"
    by (simp add: example_db_def alice_def bob_def)
  from login_failures_identical [OF h1 h2 h3, of 10 "''wonderland''" 20] h1 h2 h3
  show ?thesis by simp
qed

section \<open>Deletion\<close>

text \<open>
  C6. In a store whose record ids are unique: if a record with the given id owned by the
  caller exists, delete-video removes exactly that record, and afterwards get-video for
  that id answers \<open>not_found\<close> and no summary of list-videos carries that id; if no such
  owned record exists, delete-video answers 404 \<open>not_found\<close> and the database is unchanged.
\<close>

theorem delete_video_effect:
  "distinct (map id_video (videos d)) \<Longrightarrow>
   (\<forall>r. r \<in> set (videos d) \<and> id_video r = x \<and> user_id r = id_user c \<longrightarrow>
        delete_video d x c = (Inr ''Video deleted successfully'', d\<lparr>videos := remove1 r (videos d)\<rparr>)
      \<and> set (videos (snd (delete_video d x c))) = set (videos d) - {r}
      \<and> get_video (snd (delete_video d x c)) x c = Inl not_found
      \<and> (\<forall>s\<in>set (get_user_videos (snd (delete_video d x c)) c). (''id'', JString x) \<notin> set s))
   \<and> (\<not> (\<exists>r\<in>set (videos d). id_video r = x \<and> user_id r = id_user c) \<longrightarrow>
        delete_video d x c = (Inl not_found, d)
      \<and> response_status (fst (delete_video d x c)) = 404)"
proof -
  assume dist: "distinct (map id_video (videos d))"
  let ?q = "\<lambda>v. id_video v = x \<and> user_id v = id_user c"
  have A: "delete_video d x c = (Inr ''Video deleted successfully'', d\<lparr>videos := remove1 r (videos d)\<rparr>)
      \<and> set (videos (snd (delete_video d x c))) = set (videos d) - {r}
      \<and> get_video (snd (delete_video d x c)) x c = Inl not_found
      \<and> (\<forall>s\<in>set (get_user_videos (snd (delete_video d x c)) c). (''id'', JString x) \<notin> set s)"
    if r: "r \<in> set (videos d)" and rx: "id_video r = x" and rc: "user_id r = id_user c" for r
  proof -
    have f: "find ?q (videos d) = Some r"
      using find_unique_id [OF dist r, of "\<lambda>v. user_id v = id_user c"] rx rc by simp
    have del: "delete_video d x c = (Inr ''Video deleted successfully'', d\<lparr>videos := remove1 r (videos d)\<rparr>)"
      using f by (simp add: delete_video_def delete_one_first_match)
    have dv: "distinct (videos d)"
      using dist by (simp add: distinct_map)
    have st: "set (remove1 r (videos d)) = set (videos d) - {r}"
      using dv by simp
    have gone: "x \<notin> id_video ` set (remove1 r (videos d))"
    proof
      assume "x \<in> id_video ` set (remove1 r (videos d))"
      then obtain w where w: "w \<in> set (videos d)" "w \<noteq> r" "id_video w = x"
        using st by auto
      with dist r rx show False
        by (auto simp: distinct_map inj_on_def)
    qed
    have g: "get_video (d\<lparr>videos := remove1 r (videos d)\<rparr>) x c = Inl not_found"
      using find_absent_id [OF gone, of "\<lambda>v. user_id v = id_user c"]
      by (simp add: get_video_def)
    have l: "(''id'', JString x) \<notin> set s"
      if "s \<in> set (get_user_videos (d\<lparr>videos := remove1 r (videos d)\<rparr>) c)" for s
    proof
      assume m: "(''id'', JString x) \<in> set s"
      from summaries_from_store [OF that]
      obtain w where "w \<in> set (remove1 r (videos d))" "s = video_summary w"
        by auto
      with m gone summary_id [of "JString x" w] show False
        by auto
    qed
    show ?thesis using del st g l by simp
  qed
  have B: "delete_video d x c = (Inl not_found, d) \<and> response_status (fst (delete_video d x c)) = 404"
    if "\<not> (\<exists>r\<in>set (videos d). id_video r = x \<and> user_id r = id_user c)"
  proof -
    from that have "find ?q (videos d) = None"
      by (auto simp: find_None_iff)
    then show ?thesis
      by (simp add: delete_video_def delete_one_no_match response_status_def not_found_def)
  qed
  show ?thesis using A B by blast
qed

theorem delete_video_effect_witness:
  "distinct (map id_video (videos example_db))
   \<and> clip_a \<in> set (videos example_db) \<and> id_video clip_a = ''v-1'' \<and> user_id clip_a = id_user alice
   \<and> delete_video example_db ''v-1'' alice =
        (Inr ''Video deleted successfully'', example_db\<lparr>videos := [clip_b]\<rparr>)
   \<and> get_video (snd (delete_video example_db ''v-1'' alice)) ''v-1'' alice = Inl not_found
   \<and> \<not> (\<exists>r\<in>set (videos example_db). id_video r = ''v-1'' \<and> user_id r = id_user bob)
   \<and> delete_video example_db ''v-1'' bob = (Inl not_found, example_db)"
proof -
  have h1: "distinct (map id_video (videos example_db))"
    by (simp add: example_db_def clip_a_def clip_b_def)
  have h2: "clip_a \<in> set (videos example_db) \<and> id_video clip_a = ''v-1'' \<and> user_id clip_a = id_user alice"
    by (simp add: example_db_def clip_a_def alice_def)
  have h3: "\<not> (\<exists>r\<in>set (videos example_db). id_video r = ''v-1'' \<and> user_id r = id_user bob)"
    by (simp add: example_db_def clip_a_def clip_b_def bob_def)
  have r: "remove1 clip_a (videos example_db) = [clip_b]"
    by (simp add: example_db_def)
  from delete_video_effect [OF h1, of "''v-1''" alice] h2 r
  have a: "delete_video example_db ''v-1'' alice =
             (Inr ''Video deleted successfully'', example_db\<lparr>videos := [clip_b]\<rparr>)
           \<and> get_video (snd (delete_video example_db ''v-1'' alice)) ''v-1'' alice = Inl not_found"
    by auto
  from delete_video_effect [OF h1, of "''v-1''" bob] h3
  have b: "delete_video example_db ''v-1'' bob = (Inl not_found, example_db)"
    by blast
  from h1 h2 h3 a b show ?thesis by blast
qed

section \<open>Upload followed by get\<close>

text \<open>
  C8. An upload under a fresh id answers 200 with that id as \<open>video_id\<close>, and a get-video
  by the same user with that id then returns a record whose \<open>video_data\<close> is the uploaded
  string, unchanged.
\<close>

theorem upload_then_get:
  "vid \<notin> id_video ` set (videos d) \<Longrightarrow>
     response_status (fst (upload_video d video u vid now)) = 200
   \<and> (\<exists>resp r. fst (upload_video d video u vid now) = Inr resp \<and> video_id resp = vid
         \<and> get_video (snd (upload_video d video u vid now)) (video_id resp) u = Inr r
         \<and> video_data r = vu_video_data video)"
proof -
  assume fresh: "vid \<notin> id_video ` set (videos d)"
  let ?r = "\<lparr>id_video = vid, user_id = id_user u, video_data = vu_video_data video,
             location_lat = vu_location_lat video, location_lng = vu_location_lng video,
             phone_number = vu_phone_number video, timestamp = now\<rparr>"
  let ?q = "\<lambda>v. id_video v = vid \<and> user_id v = id_user u"
  have "find ?q (videos d) = None"
    using find_absent_id [OF fresh, of "\<lambda>v. user_id v = id_user u"] by simp
  then have "find ?q (videos d @ [?r]) = Some ?r"
    by (rule find_append_new) simp
  then show ?thesis
    by (simp add: upload_video_def get_video_def insert_one_def response_status_def Let_def)
qed

theorem upload_then_get_witness:
  "''v-3'' \<notin> id_video ` set (videos example_db)
   \<and> (\<exists>resp r. fst (upload_video example_db
                \<lparr>vu_video_data = ''AAEC'', vu_location_lat = None, vu_location_lng = None,
                   vu_phone_number = None\<rparr> bob ''v-3'' 6000) = Inr resp
         \<and> video_id resp = ''v-3''
         \<and> get_video (snd (upload_video example_db
                \<lparr>vu_video_data = ''AAEC'', vu_location_lat = None, vu_location_lng = None,
                   vu_phone_number = None\<rparr> bob ''v-3'' 6000)) (video_id resp) bob = Inr r
         \<and> video_data r = ''AAEC'')"
proof -
  have h: "''v-3'' \<notin> id_video ` set (videos example_db)"
    by (simp add: example_db_def clip_a_def clip_b_def)
  from upload_then_get [OF h, of
      "\<lparr>vu_video_data = ''AAEC'', vu_location_lat = None, vu_location_lng = None,
         vu_phone_number = None\<rparr>" bob 6000] h
  show ?thesis by simp
qed

section \<open>Listing\<close>

text \<open>
  C5. The list endpoint cuts the query result off at 1000 documents. For a user with \<open>N\<close>
  records it returns \<open>min N 1000\<close> summaries, those of the user's first records in store
  order; every summary has exactly the keys id, timestamp, location_lat, location_lng and
  phone_number, and so no \<open>video_data\<close>; a later upload only appends to the listing. With
  1001 records of one user the listing has 1000 entries, not 1001.
\<close>

theorem list_videos_capped:
  "length (get_user_videos d u) =
     min (length (filter (\<lambda>v. user_id v = id_user u) (videos d))) 1000
   \<and> (\<forall>s\<in>set (get_user_videos d u).
        map fst s = [''id'', ''timestamp'', ''location_lat'', ''location_lng'', ''phone_number'']
      \<and> ''video_data'' \<notin> fst ` set s)
   \<and> map (\<lambda>s. map_of s ''id'') (get_user_videos d u) =
       map (\<lambda>v. Some (JString (id_video v)))
         (take 1000 (filter (\<lambda>v. user_id v = id_user u) (videos d)))
   \<and> (\<exists>rest. get_user_videos (snd (upload_video d video c vid now)) u = get_user_videos d u @ rest)"
proof -
  have len: "length (get_user_videos d u) =
     min (length (filter (\<lambda>v. user_id v = id_user u) (videos d))) 1000"
    by (simp add: get_user_videos_def to_list_def)
  have keys: "map fst s = [''id'', ''timestamp'', ''location_lat'', ''location_lng'', ''phone_number'']
      \<and> ''video_data'' \<notin> fst ` set s" if "s \<in> set (get_user_videos d u)" for s
  proof -
    from summaries_from_store [OF that] obtain w where s: "s = video_summary w"
      by blast
    have "fst ` set s = set (map fst s)" by simp
    then show ?thesis
      unfolding s summary_keys by simp
  qed
  have ord: "map (\<lambda>s. map_of s ''id'') (get_user_videos d u) =
       map (\<lambda>v. Some (JString (id_video v)))
         (take 1000 (filter (\<lambda>v. user_id v = id_user u) (videos d)))"
    by (simp add: get_user_videos_def to_list_def comp_def summary_map_of_id)
  have app: "\<exists>rest. get_user_videos (snd (upload_video d video c vid now)) u = get_user_videos d u @ rest"
    by (simp add: get_user_videos_def to_list_def upload_video_def insert_one_def Let_def)
  from len keys ord app show ?thesis by blast
qed

theorem list_videos_capped_witness:
  "get_user_videos example_db bob =
     [[(''id'', JString ''v-2''), (''timestamp'', JDatetime 4000), (''location_lat'', JFloat 7),
       (''location_lng'', JFloat 9), (''phone_number'', JString ''+1-555-0123'')]]
   \<and> length (get_user_videos example_db bob) = 1
   \<and> ''video_data'' \<notin> fst ` set (hd (get_user_videos example_db bob))"
proof -
  have g: "get_user_videos example_db bob =
     [[(''id'', JString ''v-2''), (''timestamp'', JDatetime 4000), (''location_lat'', JFloat 7),
       (''location_lng'', JFloat 9), (''phone_number'', JString ''+1-555-0123'')]]"
    by (simp add: get_user_videos_def to_list_def example_db_def clip_a_def clip_b_def bob_def
        video_summary_def opt_json_def)
  then have m: "hd (get_user_videos example_db bob) \<in> set (get_user_videos example_db bob)"
    by simp
  from list_videos_capped [of example_db bob] m
  have "''video_data'' \<notin> fst ` set (hd (get_user_videos example_db bob))"
    by blast
  with g show ?thesis by simp
qed

theorem list_videos_cap_counterexample:
  "length (videos big_db) = 1001
   \<and> set (map user_id (videos big_db)) = {id_user alice}
   \<and> distinct (map id_video (videos big_db))
   \<and> length (get_user_videos big_db alice) = 1000"
proof -
  have l: "length (videos big_db) = 1001"
    by (simp add: big_db_def)
  have "map user_id (videos big_db) = replicate 1001 (id_user alice)"
    by (simp add: big_db_def clip_n_def alice_def comp_def map_replicate_const)
  then have o: "set (map user_id (videos big_db)) = {id_user alice}"
    by simp
  have "inj_on (\<lambda>i. replicate i (CHR ''v'')) (set [0..<1001])"
    by (rule inj_onI) (metis length_replicate)
  then have i: "distinct (map id_video (videos big_db))"
    by (simp add: big_db_def clip_n_def comp_def distinct_map)
  have c: "length (get_user_videos big_db alice) = 1000"
    using l by (simp add: get_user_videos_def to_list_def big_db_owned)
  from l o i c show ?thesis by blast
qed

section \<open>Issued tokens\<close>

text \<open>
  C2. A token returned by \<open>login\<close> or \<open>register\<close> carries the user's email as subject and
  the issue time plus 30 minutes as expiry. At every time strictly before the expiry the
  authentication gate accepts it and yields that same user, also after further users were
  added to the store; at every time at or after the expiry the gate rejects it with
  \<open>credentials_exception\<close>, whatever the store holds.
\<close>

theorem issued_token_valid_until_expiry:
  "(login d ul now = Inr tk \<longrightarrow>
      (\<exists>u. find (\<lambda>u. email u = ul_email ul) (users d) = Some u
         \<and> access_token tk = JWS SECRET_KEY ALGORITHM
              [''sub'' \<mapsto> JStr (email u), ''exp'' \<mapsto> JTime (now + 60 * 30)]
         \<and> (\<forall>t more vs. t < now + 60 * 30 \<longrightarrow>
               fst (authentication_gate \<lparr>users = users d @ more, videos = vs\<rparr>
                     (Some (access_token tk)) t) = Inr u)
         \<and> (\<forall>t d2. now + 60 * 30 \<le> t \<longrightarrow>
               fst (authentication_gate d2 (Some (access_token tk)) t) = Inl credentials_exception)))
   \<and> (register d uc uid salt created now = (Inr tk, d') \<longrightarrow>
      (\<exists>u. users d' = users d @ [u] \<and> email u = uc_email uc \<and> id_user u = uid
         \<and> access_token tk = JWS SECRET_KEY ALGORITHM
              [''sub'' \<mapsto> JStr (email u), ''exp'' \<mapsto> JTime (now + 60 * 30)]
         \<and> (\<forall>t more vs. t < now + 60 * 30 \<longrightarrow>
               fst (authentication_gate \<lparr>users = users d' @ more, videos = vs\<rparr>
                     (Some (access_token tk)) t) = Inr u)
         \<and> (\<forall>t d2. now + 60 * 30 \<le> t \<longrightarrow>
               fst (authentication_gate d2 (Some (access_token tk)) t) = Inl credentials_exception)))"
proof (intro conjI impI)
  assume "login d ul now = Inr tk"
  from login_success [OF this] obtain u
    where f: "find (\<lambda>u. email u = ul_email ul) (users d) = Some u"
      and tk: "access_token tk = JWS SECRET_KEY ALGORITHM
             [''sub'' \<mapsto> JStr (email u), ''exp'' \<mapsto> JTime (now + 1800)]"
    by blast
  from find_Some_holds [OF f] have e: "email u = ul_email ul" by simp
  have acc: "fst (authentication_gate \<lparr>users = users d @ more, videos = vs\<rparr>
                     (Some (access_token tk)) t) = Inr u" if "t < now + 1800" for t more vs
  proof -
    have "find (\<lambda>u. email u = ul_email ul) (users \<lparr>users = users d @ more, videos = vs\<rparr>) = Some u"
      using find_append_left [OF f] by simp
    from gate_accepts_issued [OF this that] show ?thesis
      by (simp add: tk e)
  qed
  have rej: "fst (authentication_gate d2 (Some (access_token tk)) t) = Inl credentials_exception"
    if "now + 1800 \<le> t" for t d2
    using gate_rejects_expired [OF that] by (simp add: tk)
  from f tk acc rej
  show "\<exists>u. find (\<lambda>u. email u = ul_email ul) (users d) = Some u
         \<and> access_token tk = JWS SECRET_KEY ALGORITHM
              [''sub'' \<mapsto> JStr (email u), ''exp'' \<mapsto> JTime (now + 60 * 30)]
         \<and> (\<forall>t more vs. t < now + 60 * 30 \<longrightarrow>
               fst (authentication_gate \<lparr>users = users d @ more, videos = vs\<rparr>
                     (Some (access_token tk)) t) = Inr u)
         \<and> (\<forall>t d2. now + 60 * 30 \<le> t \<longrightarrow>
               fst (authentication_gate d2 (Some (access_token tk)) t) = Inl credentials_exception)"
    by auto
next
  assume "register d uc uid salt created now = (Inr tk, d')"
  from register_success [OF this] obtain u
    where u: "users d' = users d @ [u]" "email u = uc_email uc" "id_user u = uid"
      and f: "find (\<lambda>u. email u = uc_email uc) (users d') = Some u"
      and tk: "access_token tk = JWS SECRET_KEY ALGORITHM
             [''sub'' \<mapsto> JStr (email u), ''exp'' \<mapsto> JTime (now + 1800)]"
    by blast
  have acc: "fst (authentication_gate \<lparr>users = users d' @ more, videos = vs\<rparr>
                     (Some (access_token tk)) t) = Inr u" if "t < now + 1800" for t more vs
  proof -
    have "find (\<lambda>u. email u = uc_email uc) (users \<lparr>users = users d' @ more, videos = vs\<rparr>) = Some u"
      using find_append_left [OF f] by simp
    from gate_accepts_issued [OF this that] show ?thesis
      by (simp add: tk u)
  qed
  have rej: "fst (authentication_gate d2 (Some (access_token tk)) t) = Inl credentials_exception"
    if "now + 1800 \<le> t" for t d2
    using gate_rejects_expired [OF that] by (simp add: tk)
  from u tk acc rej
  show "\<exists>u. users d' = users d @ [u] \<and> email u = uc_email uc \<and> id_user u = uid
         \<and> access_token tk = JWS SECRET_KEY ALGORITHM
              [''sub'' \<mapsto> JStr (email u), ''exp'' \<mapsto> JTime (now + 60 * 30)]
         \<and> (\<forall>t more vs. t < now + 60 * 30 \<longrightarrow>
               fst (authentication_gate \<lparr>users = users d' @ more, videos = vs\<rparr>
                     (Some (access_token tk)) t) = Inr u)
         \<and> (\<forall>t d2. now + 60 * 30 \<le> t \<longrightarrow>
               fst (authentication_gate d2 (Some (access_token tk)) t) = Inl credentials_exception)"
    by auto
qed

theorem issued_token_valid_until_expiry_witness:
  "login example_db \<lparr>ul_email = ''alice@example.com'', ul_password = ''wonderland''\<rparr> 100 =
     Inr \<lparr>access_token = alice_token, token_type = ''bearer''\<rparr>
   \<and> fst (authentication_gate example_db (Some alice_token) 1899) = Inr alice
   \<and> fst (authentication_gate example_db (Some alice_token) 1900) = Inl credentials_exception
   \<and> register example_db
        \<lparr>uc_email = ''carol@example.com'', uc_password = ''pw'', uc_phone = None\<rparr>
        ''u-carol'' ''s3'' 99 100 =
       (Inr \<lparr>access_token = carol_token, token_type = ''bearer''\<rparr>,
        \<lparr>users = [alice, bob, carol], videos = [clip_a, clip_b]\<rparr>)
   \<and> fst (authentication_gate \<lparr>users = [alice, bob, carol], videos = [clip_a, clip_b]\<rparr>
            (Some carol_token) 1899) = Inr carol
   \<and> fst (authentication_gate \<lparr>users = [alice, bob, carol], videos = [clip_a, clip_b]\<rparr>
            (Some carol_token) 1900) = Inl credentials_exception"
proof -
  let ?ul = "\<lparr>ul_email = ''alice@example.com'', ul_password = ''wonderland''\<rparr>"
  let ?uc = "\<lparr>uc_email = ''carol@example.com'', uc_password = ''pw'', uc_phone = None\<rparr>"
  let ?tka = "\<lparr>access_token = alice_token, token_type = ''bearer''\<rparr>"
  let ?tkc = "\<lparr>access_token = carol_token, token_type = ''bearer''\<rparr>"
  let ?d' = "\<lparr>users = [alice, bob, carol], videos = [clip_a, clip_b]\<rparr>"
  have L: "login example_db ?ul 100 = Inr ?tka"
    by (simp add: login_def example_db_def alice_def verify_password_def alice_token_def
        issued_token Let_def)
  have R: "register example_db ?uc ''u-carol'' ''s3'' 99 100 = (Inr ?tkc, ?d')"
    by (simp add: register_def example_db_def alice_def bob_def carol_def carol_token_def
        issued_token insert_one_def get_password_hash_def Let_def)
  from issued_token_valid_until_expiry [where d = example_db and ul = ?ul and now = 100 and tk = ?tka,
      THEN conjunct1, THEN mp, OF L]
  obtain u where fu: "find (\<lambda>u. email u = ul_email ?ul) (users example_db) = Some u"
    and acc: "\<forall>t more vs. t < 100 + 60 * 30 \<longrightarrow>
        fst (authentication_gate \<lparr>users = users example_db @ more, videos = vs\<rparr>
              (Some (access_token ?tka)) t) = Inr u"
    and rej: "\<forall>t d2. 100 + 60 * 30 \<le> t \<longrightarrow>
        fst (authentication_gate d2 (Some (access_token ?tka)) t) = Inl credentials_exception"
    by blast
  from fu have ua: "u = alice"
    by (simp add: example_db_def alice_def)
  have a1: "fst (authentication_gate example_db (Some alice_token) 1899) = Inr alice"
    using acc [rule_format, of 1899 "[]" "[clip_a, clip_b]"] ua by (simp add: example_db_def)
  have a2: "fst (authentication_gate example_db (Some alice_token) 1900) = Inl credentials_exception"
    using rej [rule_format, of 1900 example_db] by simp
  from issued_token_valid_until_expiry [where d = example_db and uc = ?uc and uid = "''u-carol''"
      and salt = "''s3''" and created = 99 and now = 100 and tk = ?tkc and d' = ?d',
      THEN conjunct2, THEN mp, OF R]
  obtain w where wu: "users ?d' = users example_db @ [w]"
    and accw: "\<forall>t more vs. t < 100 + 60 * 30 \<longrightarrow>
        fst (authentication_gate \<lparr>users = users ?d' @ more, videos = vs\<rparr>
              (Some (access_token ?tkc)) t) = Inr w"
    and rejw: "\<forall>t d2. 100 + 60 * 30 \<le> t \<longrightarrow>
        fst (authentication_gate d2 (Some (access_token ?tkc)) t) = Inl credentials_exception"
    by blast
  from wu have wc: "w = carol"
    by (simp add: example_db_def)
  have c1: "fst (authentication_gate ?d' (Some carol_token) 1899) = Inr carol"
    using accw [rule_format, of 1899 "[]" "[clip_a, clip_b]"] wc by simp
  have c2: "fst (authentication_gate ?d' (Some carol_token) 1900) = Inl credentials_exception"
    using rejw [rule_format, of 1900 ?d'] by simp
  from L R a1 a2 c1 c2 show ?thesis by blast
qed

section \<open>The authentication gate\<close>

text \<open>
  C7. The gate rejects with one and the same 401 \<open>credentials_exception\<close> when the token
  is absent, when it is malformed, when it was not signed with the secret key and
  algorithm, when it has expired, and when its subject is the email of no user in the
  store; whenever the gate rejects, that is the exception. Whenever it accepts, the token
  is a well-signed one whose subject is the email of the user it yields, and a well-signed,
  unexpired token whose subject is a stored email is accepted.
\<close>

theorem authentication_gate_uniform:
  "fst (authentication_gate d None t) = Inl credentials_exception
   \<and> fst (authentication_gate d (Some (Malformed s)) t) = Inl credentials_exception
   \<and> (k \<noteq> SECRET_KEY \<or> a \<noteq> ALGORITHM \<longrightarrow>
        fst (authentication_gate d (Some (JWS k a p)) t) = Inl credentials_exception)
   \<and> (p ''exp'' = Some (JTime ex) \<and> ex \<le> t \<longrightarrow>
        fst (authentication_gate d (Some (JWS k a p)) t) = Inl credentials_exception)
   \<and> (p ''sub'' = Some (JStr em) \<and> \<not> (\<exists>u\<in>set (users d). email u = em) \<longrightarrow>
        fst (authentication_gate d (Some (JWS k a p)) t) = Inl credentials_exception)
   \<and> (\<forall>e. fst (authentication_gate d tok t) = Inl e \<longrightarrow> e = credentials_exception)
   \<and> status_code credentials_exception = 401
   \<and> (\<forall>u. fst (authentication_gate d tok t) = Inr u \<longrightarrow>
        (\<exists>q. tok = Some (JWS SECRET_KEY ALGORITHM q) \<and> q ''sub'' = Some (JStr (email u))
            \<and> find (\<lambda>v. email v = email u) (users d) = Some u))
   \<and> (p ''sub'' = Some (JStr em)
        \<and> (p ''exp'' = None \<or> (\<exists>ex. p ''exp'' = Some (JTime ex) \<and> t < ex))
        \<and> (\<exists>u\<in>set (users d). email u = em) \<longrightarrow>
        (\<exists>u. fst (authentication_gate d (Some (JWS SECRET_KEY ALGORITHM p)) t) = Inr u
            \<and> email u = em \<and> u \<in> set (users d)))"
proof -
  have absent: "fst (authentication_gate d None t) = Inl credentials_exception"
    by (simp add: authentication_gate_def security_def)
  have malformed: "fst (authentication_gate d (Some (Malformed s)) t) = Inl credentials_exception"
    by (simp add: authentication_gate_def security_def get_current_user_def jwt_decode_def)
  have signature: "fst (authentication_gate d (Some (JWS k a p)) t) = Inl credentials_exception"
    if "k \<noteq> SECRET_KEY \<or> a \<noteq> ALGORITHM"
    using that
    by (auto simp: authentication_gate_def security_def get_current_user_def jwt_decode_def)
  have expired: "fst (authentication_gate d (Some (JWS k a p)) t) = Inl credentials_exception"
    if "p ''exp'' = Some (JTime ex) \<and> ex \<le> t"
    using that
    by (simp add: authentication_gate_def security_def get_current_user_def jwt_decode_def)
  have unknown: "fst (authentication_gate d (Some (JWS k a p)) t) = Inl credentials_exception"
    if "p ''sub'' = Some (JStr em) \<and> \<not> (\<exists>u\<in>set (users d). email u = em)"
  proof -
    from that have "find (\<lambda>u. email u = em) (users d) = None"
      by (auto simp: find_None_iff)
    with that show ?thesis
      by (simp add: authentication_gate_def security_def get_current_user_def jwt_decode_def
          split: option.splits jvalue.splits)
  qed
  have uniform: "e = credentials_exception" if "fst (authentication_gate d tok t) = Inl e" for e
    using that
    by (auto simp: authentication_gate_def security_def get_current_user_def
        split: option.splits sum.splits jwt_error.splits)
  have status: "status_code credentials_exception = 401"
    by (simp add: credentials_exception_def)
  have resolved: "\<exists>q. tok = Some (JWS SECRET_KEY ALGORITHM q) \<and> q ''sub'' = Some (JStr (email u))
            \<and> find (\<lambda>v. email v = email u) (users d) = Some u"
    if r: "fst (authentication_gate d tok t) = Inr u" for u
  proof -
    from r obtain c where tok: "tok = Some c"
      by (cases tok) (auto simp: authentication_gate_def security_def)
    from r tok obtain q where dec: "jwt_decode c SECRET_KEY [ALGORITHM] t = Inr q"
      by (auto simp: authentication_gate_def security_def get_current_user_def
          split: sum.splits jwt_error.splits)
    from dec have c: "c = JWS SECRET_KEY ALGORITHM q"
      by (auto simp: jwt_decode_def split: token.splits if_splits option.splits jvalue.splits)
    from r tok dec obtain sb where sb: "q ''sub'' = Some sb"
      and f: "find (\<lambda>v. JStr (email v) = sb) (users d) = Some u"
      by (auto simp: authentication_gate_def security_def get_current_user_def
          split: option.splits)
    from find_Some_holds [OF f] have e: "sb = JStr (email u)" by simp
    from f e have "find (\<lambda>v. email v = email u) (users d) = Some u" by simp
    with tok c sb e show ?thesis by simp
  qed
  have accepted: "\<exists>u. fst (authentication_gate d (Some (JWS SECRET_KEY ALGORITHM p)) t) = Inr u
            \<and> email u = em \<and> u \<in> set (users d)"
    if h: "p ''sub'' = Some (JStr em)
        \<and> (p ''exp'' = None \<or> (\<exists>ex. p ''exp'' = Some (JTime ex) \<and> t < ex))
        \<and> (\<exists>u\<in>set (users d). email u = em)"
  proof -
    from h obtain u where f: "find (\<lambda>u. email u = em) (users d) = Some u"
      by (cases "find (\<lambda>u. email u = em) (users d)") (auto simp: find_None_iff)
    from h have "jwt_decode (JWS SECRET_KEY ALGORITHM p) SECRET_KEY [ALGORITHM] t = Inr p"
      by (auto simp: jwt_decode_def)
    with h f have "fst (authentication_gate d (Some (JWS SECRET_KEY ALGORITHM p)) t) = Inr u"
      by (simp add: authentication_gate_def security_def get_current_user_def)
    with find_Some_holds [OF f] show ?thesis by simp
  qed
  from absent malformed signature expired unknown uniform status resolved accepted
  show ?thesis by blast
qed

theorem authentication_gate_uniform_witness:
  "fst (authentication_gate example_db None 100) = Inl credentials_exception
   \<and> fst (authentication_gate example_db (Some (Malformed ''junk'')) 100) = Inl credentials_exception
   \<and> ''forged'' \<noteq> SECRET_KEY
   \<and> fst (authentication_gate example_db
            (Some (JWS ''forged'' ALGORITHM
               [''sub'' \<mapsto> JStr ''carol@example.com'', ''exp'' \<mapsto> JTime 1900])) 1900)
        = Inl credentials_exception
   \<and> fst (authentication_gate example_db (Some carol_token) 1900) = Inl credentials_exception
   \<and> \<not> (\<exists>u\<in>set (users example_db). email u = ''carol@example.com'')
   \<and> fst (authentication_gate example_db (Some carol_token) 100) = Inl credentials_exception
   \<and> (\<exists>u\<in>set (users example_db). email u = ''alice@example.com'')
   \<and> fst (authentication_gate example_db (Some alice_token) 100) = Inr alice"
proof -
  let ?pc = "[''sub'' \<mapsto> JStr ''carol@example.com'', ''exp'' \<mapsto> JTime 1900]"
  let ?pa = "[''sub'' \<mapsto> JStr ''alice@example.com'', ''exp'' \<mapsto> JTime 1900]"
  note forged = authentication_gate_uniform [where d = example_db and t = 1900
      and s = "''junk''" and k = "''forged''" and a = ALGORITHM and p = ?pc and ex = 1900
      and em = "''carol@example.com''"]
  note stale = authentication_gate_uniform [where d = example_db and t = 1900
      and k = SECRET_KEY and a = ALGORITHM and p = ?pc and ex = 1900]
  note unknown = authentication_gate_uniform [where d = example_db and t = 100
      and s = "''junk''" and k = SECRET_KEY and a = ALGORITHM and p = ?pc
      and em = "''carol@example.com''"]
  note known = authentication_gate_uniform [where d = example_db and t = 100
      and p = ?pa and em = "''alice@example.com''"]
  have k: "''forged'' \<noteq> SECRET_KEY"
    by (simp add: SECRET_KEY_def)
  have nc: "\<not> (\<exists>u\<in>set (users example_db). email u = ''carol@example.com'')"
    by (simp add: example_db_def alice_def bob_def)
  have ya: "\<exists>u\<in>set (users example_db). email u = ''alice@example.com''"
    by (simp add: example_db_def alice_def)
  have c1: "fst (authentication_gate example_db None 100) = Inl credentials_exception"
    using unknown by blast
  have c2: "fst (authentication_gate example_db (Some (Malformed ''junk'')) 100) = Inl credentials_exception"
    using unknown by blast
  have c3: "fst (authentication_gate example_db (Some (JWS ''forged'' ALGORITHM ?pc)) 1900)
        = Inl credentials_exception"
    using forged k by blast
  have "?pc ''exp'' = Some (JTime 1900) \<and> (1900::int) \<le> 1900"
    by simp
  with stale have c4: "fst (authentication_gate example_db (Some carol_token) 1900) = Inl credentials_exception"
    unfolding carol_token_def by blast
  have "?pc ''sub'' = Some (JStr ''carol@example.com'')"
    by simp
  with unknown nc
  have c5: "fst (authentication_gate example_db (Some carol_token) 100) = Inl credentials_exception"
    unfolding carol_token_def by blast
  have "?pa ''sub'' = Some (JStr ''alice@example.com'')
        \<and> (?pa ''exp'' = None \<or> (\<exists>ex. ?pa ''exp'' = Some (JTime ex) \<and> 100 < ex))
        \<and> (\<exists>u\<in>set (users example_db). email u = ''alice@example.com'')"
    using ya by simp
  with known obtain u
    where g: "fst (authentication_gate example_db (Some alice_token) 100) = Inr u"
      and u: "email u = ''alice@example.com''" "u \<in> set (users example_db)"
    unfolding alice_token_def by blast
  from u have "u = alice"
    by (auto simp: example_db_def bob_def)
  with g have c6: "fst (authentication_gate example_db (Some alice_token) 100) = Inr alice"
    by simp
  from c1 c2 k c3 c4 nc c5 ya c6 show ?thesis by blast
qed

section \<open>Tokens without a subject\<close>

text \<open>
  C9. A token that verifies (right key and algorithm, not expired) but whose payload has
  no \<open>sub\<close> claim is rejected with \<open>credentials_exception\<close> and without any query to the
  store, exactly as a token with a wrong signature is; a verified token with a subject
  does cause one query for that subject.
\<close>

theorem missing_subject_rejected:
  "jwt_decode tok SECRET_KEY [ALGORITHM] t = Inr p \<Longrightarrow> p ''sub'' = None \<Longrightarrow>
     get_current_user d tok t = (Inl credentials_exception, [])
   \<and> (\<forall>k a q. k \<noteq> SECRET_KEY \<longrightarrow>
        get_current_user d (JWS k a q) t = get_current_user d tok t)
   \<and> (\<forall>tok2 q sb. jwt_decode tok2 SECRET_KEY [ALGORITHM] t = Inr q \<and> q ''sub'' = Some sb \<longrightarrow>
        snd (get_current_user d tok2 t) = [Users_find_one sb])"
  by (simp add: get_current_user_def jwt_decode_def split: option.splits)

theorem missing_subject_rejected_witness:
  "jwt_decode nosub_token SECRET_KEY [ALGORITHM] 100 = Inr [''exp'' \<mapsto> JTime 1900]
   \<and> [''exp'' \<mapsto> JTime 1900] ''sub'' = None
   \<and> get_current_user example_db nosub_token 100 = (Inl credentials_exception, [])
   \<and> snd (get_current_user example_db alice_token 100) = [Users_find_one (JStr ''alice@example.com'')]"
proof -
  have h1: "jwt_decode nosub_token SECRET_KEY [ALGORITHM] 100 = Inr [''exp'' \<mapsto> JTime 1900]"
    by (simp add: jwt_decode_def nosub_token_def)
  have h2: "[''exp'' \<mapsto> JTime 1900] ''sub'' = None"
    by simp
  note T = missing_subject_rejected [OF h1 h2, of example_db]
  have a: "get_current_user example_db nosub_token 100 = (Inl credentials_exception, [])"
    using T by blast
  have d: "jwt_decode alice_token SECRET_KEY [ALGORITHM] 100 =
             Inr [''sub'' \<mapsto> JStr ''alice@example.com'', ''exp'' \<mapsto> JTime 1900]
           \<and> [''sub'' \<mapsto> JStr ''alice@example.com'', ''exp'' \<mapsto> JTime 1900] ''sub''
               = Some (JStr ''alice@example.com'')"
    by (simp add: jwt_decode_def alice_token_def)
  with T have b: "snd (get_current_user example_db alice_token 100) =
                    [Users_find_one (JStr ''alice@example.com'')]"
    by blast
  from h1 h2 a b show ?thesis by blast
qed

end
